theory Spec2Isabelle
  imports Main "HOL-Library.Char_ord" "HOL-Library.List_Lexorder" "HOL-Library.Product_Lexorder"
begin

section \<open>Data model of \<^verbatim>\<open>inventory_sync.py\<close>\<close>

text \<open>
  The program works on JSON-shaped dictionaries. Each dictionary shape becomes a record
  holding the keys the code reads. Identifiers and prices are Python ints. An option
  mapping (a Python dict from category to value) is the list of its items in insertion
  order; the keys of a dict are pairwise distinct.
\<close>

type_synonym options = "(string \<times> string) list"

record store_variant =
  sv_id :: int
  sv_title :: string
  sv_price :: int
  sv_is_enabled :: bool
  sv_options :: options

record catalog_variant =
  cv_id :: int
  cv_options :: options

record payload_variant =
  pv_id :: int
  pv_price :: int
  pv_is_enabled :: bool

record provider =
  provider_id :: int
  provider_title :: string

record blueprint_data =
  print_providers :: "provider list"

record product =
  product_id :: int
  product_title :: string
  blueprint_id :: int
  print_provider_id :: int
  variants :: "store_variant list"

text \<open>
  The outbound payload is either \<^verbatim>\<open>{"variants": ...}\<close> or
  \<^verbatim>\<open>{"print_provider_id": ..., "variants": ...}\<close>.
\<close>

datatype update_payload =
  VariantsOnly "payload_variant list"
| ProviderSwitch int "payload_variant list"

text \<open>
  \<^verbatim>\<open>PrintifyApiClient\<close> is imported from a module outside this file, so the client is
  a parameter: a record of the answers the upstream service gives to each request.
  \<open>None\<close> stands for every answer the code treats as unusable: a falsy response, or
  one that lacks the \<^verbatim>\<open>'data'\<close> or \<^verbatim>\<open>'variants'\<close> key (the code tests both in one
  condition and takes the same branch).
\<close>

record client =
  get_all_products :: "product list option"
  get_blueprint_details :: "int \<Rightarrow> blueprint_data option"
  get_blueprint_variants :: "int \<Rightarrow> int \<Rightarrow> catalog_variant list option"

text \<open>The calls made on the client, in the order they are made, and the pause.\<close>

datatype event =
  GetAllProducts
| GetBlueprintVariants int int
| GetBlueprintDetails int
| UpdateProduct int update_payload
| Sleep

section \<open>The failover matcher\<close>

text \<open>\<^verbatim>\<open>tuple(sorted(d.items()))\<close>: pairs are compared lexicographically.\<close>

definition options_key :: "options \<Rightarrow> options" where
  "options_key opts = sort opts"

text \<open>
  The dict comprehension of line 33: entries are stored in catalog order, a later variant
  with the same key overwrites an earlier one.
\<close>

definition new_variants_map :: "catalog_variant list \<Rightarrow> (options \<rightharpoonup> catalog_variant)" where
  "new_variants_map cvs = fold (\<lambda>v m. m(options_key (cv_options v) \<mapsto> v)) cvs Map.empty"

text \<open>
  The inner loop (lines 35 to 50). The result is the pair of \<^verbatim>\<open>all_variants_mapped\<close>
  and \<^verbatim>\<open>new_variants_payload\<close> when the loop ends; the \<^verbatim>\<open>break\<close> leaves the entries
  appended so far.
\<close>

fun remap_variants ::
  "(options \<rightharpoonup> catalog_variant) \<Rightarrow> store_variant list \<Rightarrow> payload_variant list
     \<Rightarrow> bool \<times> payload_variant list" where
  "remap_variants m [] new_variants_payload = (True, new_variants_payload)"
| "remap_variants m (store_variant # rest) new_variants_payload =
     (case m (options_key (sv_options store_variant)) of
        Some matched_variant \<Rightarrow>
          remap_variants m rest
            (new_variants_payload @
              [\<lparr>pv_id = cv_id matched_variant,
                pv_price = sv_price store_variant,
                pv_is_enabled = sv_is_enabled store_variant\<rparr>])
      | None \<Rightarrow> (False, new_variants_payload))"

definition emit :: "event \<Rightarrow> 'a \<times> event list \<Rightarrow> 'a \<times> event list" where
  "emit e r = (fst r, e # snd r)"

text \<open>
  The loop over the candidate providers (lines 21 to 57). The result is the returned pair
  (\<open>None\<close> for \<^verbatim>\<open>None, None\<close>) together with the client calls made.
\<close>

fun provider_loop ::
  "client \<Rightarrow> int \<Rightarrow> int \<Rightarrow> store_variant list \<Rightarrow> provider list
     \<Rightarrow> (int \<times> payload_variant list) option \<times> event list" where
  "provider_loop c bid current_provider_id all_store_variants [] = (None, [])"
| "provider_loop c bid current_provider_id all_store_variants (p # ps) =
     (if provider_id p = current_provider_id
      then provider_loop c bid current_provider_id all_store_variants ps
      else emit (GetBlueprintVariants bid (provider_id p))
        (case get_blueprint_variants c bid (provider_id p) of
           None \<Rightarrow> provider_loop c bid current_provider_id all_store_variants ps
         | Some cvs \<Rightarrow>
             (case remap_variants (new_variants_map cvs) all_store_variants [] of
                (True, new_variants_payload) \<Rightarrow> (Some (provider_id p, new_variants_payload), [])
              | (False, _) \<Rightarrow> provider_loop c bid current_provider_id all_store_variants ps)))"

definition attempt_provider_failover ::
  "client \<Rightarrow> product \<Rightarrow> store_variant list
     \<Rightarrow> (int \<times> payload_variant list) option \<times> event list" where
  "attempt_provider_failover c prd all_store_variants =
     emit (GetBlueprintDetails (blueprint_id prd))
       (case get_blueprint_details c (blueprint_id prd) of
          None \<Rightarrow> (None, [])
        | Some bd \<Rightarrow>
            provider_loop c (blueprint_id prd) (print_provider_id prd) all_store_variants
              (print_providers bd))"

section \<open>The stock reconciler\<close>

text \<open>
  The loop over the store variants (lines 92 to 112). The state is
  \<^verbatim>\<open>variants_for_update\<close>, \<^verbatim>\<open>requires_update\<close> and \<^verbatim>\<open>potential_failover_needed\<close>.
\<close>

fun stock_loop ::
  "int set \<Rightarrow> store_variant list \<Rightarrow> payload_variant list \<times> bool \<times> bool
     \<Rightarrow> payload_variant list \<times> bool \<times> bool" where
  "stock_loop available [] st = st"
| "stock_loop available (v # vs) (variants_for_update, requires_update, potential_failover_needed) =
     (if sv_is_enabled v \<and> sv_id v \<notin> available then
        stock_loop available vs
          (variants_for_update @ [\<lparr>pv_id = sv_id v, pv_price = sv_price v, pv_is_enabled = False\<rparr>],
           True, True)
      else if \<not> sv_is_enabled v \<and> sv_id v \<in> available then
        stock_loop available vs
          (variants_for_update @ [\<lparr>pv_id = sv_id v, pv_price = sv_price v, pv_is_enabled = True\<rparr>],
           True, potential_failover_needed)
      else
        stock_loop available vs
          (variants_for_update @
             [\<lparr>pv_id = sv_id v, pv_price = sv_price v, pv_is_enabled = sv_is_enabled v\<rparr>],
           requires_update, potential_failover_needed))"

text \<open>
  Lines 121 to 126: \<^verbatim>\<open>if new_provider_id and new_variants\<close> tests the truth value of both
  parts, so \<^verbatim>\<open>None\<close>, the integer 0 and the empty list all take the \<^verbatim>\<open>else\<close> branch.
\<close>

definition final_payload_after_failover ::
  "(int \<times> payload_variant list) option \<Rightarrow> payload_variant list \<Rightarrow> update_payload" where
  "final_payload_after_failover r variants_for_update =
     (case r of
        None \<Rightarrow> VariantsOnly variants_for_update
      | Some (new_provider_id, new_variants) \<Rightarrow>
          if new_provider_id \<noteq> 0 \<and> new_variants \<noteq> []
          then ProviderSwitch new_provider_id new_variants
          else VariantsOnly variants_for_update)"

text \<open>The body of the loop over the products (lines 77 to 137): the client calls it makes.\<close>

definition sync_product :: "client \<Rightarrow> product \<Rightarrow> event list" where
  "sync_product c prd =
     GetBlueprintVariants (blueprint_id prd) (print_provider_id prd) #
     (case get_blueprint_variants c (blueprint_id prd) (print_provider_id prd) of
        None \<Rightarrow> []
      | Some live \<Rightarrow>
          (case stock_loop (cv_id ` set live) (variants prd) ([], False, False) of
             (variants_for_update, requires_update, potential_failover_needed) \<Rightarrow>
               if \<not> requires_update then []
               else if potential_failover_needed then
                 (case attempt_provider_failover c prd (variants prd) of
                    (r, calls) \<Rightarrow>
                      calls @
                      [UpdateProduct (product_id prd)
                         (final_payload_after_failover r variants_for_update), Sleep])
               else [UpdateProduct (product_id prd) (VariantsOnly variants_for_update), Sleep]))"

definition sync_product_inventory :: "client \<Rightarrow> event list" where
  "sync_product_inventory c =
     GetAllProducts #
     (case get_all_products c of
        None \<Rightarrow> []
      | Some store_products \<Rightarrow> concat (map (sync_product c) store_products))"

section \<open>Example inputs\<close>

text \<open>
  Four store variants, one for each case of the reconciler: with the available identifiers
  \<open>{2, 3}\<close> the first is newly out of stock, the second is restocked, the third stays
  enabled and the fourth stays disabled.
\<close>

definition variant_S :: store_variant where
  "variant_S = \<lparr>sv_id = 1, sv_title = ''Tee / S'', sv_price = 1999, sv_is_enabled = True,
                 sv_options = [(''size'', ''S'')]\<rparr>"

definition variant_M :: store_variant where
  "variant_M = \<lparr>sv_id = 2, sv_title = ''Tee / M'', sv_price = 1999, sv_is_enabled = False,
                 sv_options = [(''size'', ''M'')]\<rparr>"

definition variant_L :: store_variant where
  "variant_L = \<lparr>sv_id = 3, sv_title = ''Tee / L / Black'', sv_price = 2199, sv_is_enabled = True,
                 sv_options = [(''size'', ''L''), (''color'', ''Black'')]\<rparr>"

definition variant_XL :: store_variant where
  "variant_XL = \<lparr>sv_id = 4, sv_title = ''Tee / XL'', sv_price = 2399, sv_is_enabled = False,
                  sv_options = [(''size'', ''XL'')]\<rparr>"

text \<open>
  A shop with five products on one client. The tee has one variant out of stock and two
  providers that can take it over, behind one that lacks a variant and one without catalog
  data. The mug has its only variant out of stock and one alternative provider, whose
  identifier is 0. The cap is in sync, the bag has one restocked variant, and the poster
  has a variant with an empty option mapping.
\<close>

definition variant_plain :: store_variant where
  "variant_plain = \<lparr>sv_id = 5, sv_title = ''Poster'', sv_price = 999, sv_is_enabled = True,
                     sv_options = []\<rparr>"

definition tee_product :: product where
  "tee_product = \<lparr>product_id = 10, product_title = ''Tee'', blueprint_id = 6,
                   print_provider_id = 5, variants = [variant_S, variant_L]\<rparr>"

definition mug_product :: product where
  "mug_product = \<lparr>product_id = 11, product_title = ''Mug'', blueprint_id = 9,
                   print_provider_id = 5, variants = [variant_S]\<rparr>"

definition cap_product :: product where
  "cap_product = \<lparr>product_id = 12, product_title = ''Cap'', blueprint_id = 12,
                   print_provider_id = 5, variants = [variant_L, variant_XL]\<rparr>"

definition bag_product :: product where
  "bag_product = \<lparr>product_id = 13, product_title = ''Bag'', blueprint_id = 13,
                   print_provider_id = 5, variants = [variant_M, variant_L]\<rparr>"

definition poster_product :: product where
  "poster_product = \<lparr>product_id = 14, product_title = ''Poster'', blueprint_id = 14,
                      print_provider_id = 5, variants = [variant_plain]\<rparr>"

definition shop_blueprints :: "int \<Rightarrow> blueprint_data option" where
  "shop_blueprints b =
     (if b = 6 then
        Some \<lparr>print_providers =
          [\<lparr>provider_id = 5, provider_title = ''Current''\<rparr>,
           \<lparr>provider_id = 3, provider_title = ''Partial''\<rparr>,
           \<lparr>provider_id = 4, provider_title = ''Silent''\<rparr>,
           \<lparr>provider_id = 7, provider_title = ''First''\<rparr>,
           \<lparr>provider_id = 8, provider_title = ''Second''\<rparr>]\<rparr>
      else if b = 9 then
        Some \<lparr>print_providers =
          [\<lparr>provider_id = 5, provider_title = ''Current''\<rparr>,
           \<lparr>provider_id = 0, provider_title = ''Zero''\<rparr>]\<rparr>
      else if b = 14 then
        Some \<lparr>print_providers =
          [\<lparr>provider_id = 5, provider_title = ''Current''\<rparr>,
           \<lparr>provider_id = 8, provider_title = ''Second''\<rparr>,
           \<lparr>provider_id = 7, provider_title = ''First''\<rparr>]\<rparr>
      else None)"

definition shop_catalogs :: "int \<Rightarrow> int \<Rightarrow> catalog_variant list option" where
  "shop_catalogs b p =
     (if b = 6 \<and> p = 5 then Some [\<lparr>cv_id = 3, cv_options = [(''size'', ''L''), (''color'', ''Black'')]\<rparr>]
      else if b = 6 \<and> p = 3 then Some [\<lparr>cv_id = 31, cv_options = [(''size'', ''S'')]\<rparr>]
      else if b = 6 \<and> p = 7 then
        Some [\<lparr>cv_id = 71, cv_options = [(''size'', ''S'')]\<rparr>,
              \<lparr>cv_id = 73, cv_options = [(''color'', ''Black''), (''size'', ''L'')]\<rparr>]
      else if b = 6 \<and> p = 8 then
        Some [\<lparr>cv_id = 81, cv_options = [(''size'', ''S'')]\<rparr>,
              \<lparr>cv_id = 83, cv_options = [(''color'', ''Black''), (''size'', ''L'')]\<rparr>]
      else if b = 9 \<and> p = 5 then Some []
      else if b = 9 \<and> p = 0 then Some [\<lparr>cv_id = 99, cv_options = [(''size'', ''S'')]\<rparr>]
      else if b = 12 \<and> p = 5 then Some [\<lparr>cv_id = 3, cv_options = [(''size'', ''L''), (''color'', ''Black'')]\<rparr>]
      else if b = 13 \<and> p = 5 then
        Some [\<lparr>cv_id = 2, cv_options = [(''size'', ''M'')]\<rparr>,
              \<lparr>cv_id = 3, cv_options = [(''size'', ''L''), (''color'', ''Black'')]\<rparr>]
      else if b = 14 \<and> p = 5 then Some []
      else if b = 14 \<and> p = 8 then Some [\<lparr>cv_id = 81, cv_options = [(''size'', ''S'')]\<rparr>]
      else if b = 14 \<and> p = 7 then Some [\<lparr>cv_id = 90, cv_options = []\<rparr>]
      else None)"

definition shop_client :: client where
  "shop_client =
     \<lparr>get_all_products =
        Some [tee_product, mug_product, cap_product, bag_product, poster_product],
      get_blueprint_details = shop_blueprints,
      get_blueprint_variants = shop_catalogs\<rparr>"

section \<open>Properties of the loops\<close>

lemma stock_loop_eq:
  "stock_loop A vs (acc, r, f) =
     (acc @ map (\<lambda>v. \<lparr>pv_id = sv_id v, pv_price = sv_price v,
                pv_is_enabled = (if sv_is_enabled v \<and> sv_id v \<notin> A then False
                                 else if \<not> sv_is_enabled v \<and> sv_id v \<in> A then True
                                 else sv_is_enabled v)\<rparr>) vs,
      r \<or> (\<exists>v\<in>set vs. sv_is_enabled v \<noteq> (sv_id v \<in> A)),
      f \<or> (\<exists>v\<in>set vs. sv_is_enabled v \<and> sv_id v \<notin> A))"
  by (induction vs arbitrary: acc r f) auto

lemma remap_variants_all:
  "\<forall>sv\<in>set vs. m (options_key (sv_options sv)) \<noteq> None \<Longrightarrow>
   remap_variants m vs acc =
     (True, acc @ map (\<lambda>sv. \<lparr>pv_id = cv_id (the (m (options_key (sv_options sv)))),
                                   pv_price = sv_price sv, pv_is_enabled = sv_is_enabled sv\<rparr>) vs)"
  by (induction vs arbitrary: acc) auto

lemma remap_variants_fail:
  "\<exists>sv\<in>set vs. m (options_key (sv_options sv)) = None \<Longrightarrow>
   fst (remap_variants m vs acc) = False"
  by (induction vs arbitrary: acc) (auto split: option.splits)

lemma remap_variants_fst:
  "fst (remap_variants m vs acc) = (\<forall>sv\<in>set vs. m (options_key (sv_options sv)) \<noteq> None)"
  using remap_variants_all[of vs m acc] remap_variants_fail[of vs m acc]
  by (cases "\<forall>sv\<in>set vs. m (options_key (sv_options sv)) \<noteq> None") auto

lemma fold_update_dom:
  "dom (fold (\<lambda>v m. m(options_key (cv_options v) \<mapsto> v)) cvs m0) =
     dom m0 \<union> (\<lambda>v. options_key (cv_options v)) ` set cvs"
  by (induction cvs arbitrary: m0) auto

lemma fold_update_Some:
  "fold (\<lambda>v m. m(options_key (cv_options v) \<mapsto> v)) cvs m0 k = Some mv \<Longrightarrow>
     m0 k = Some mv \<or> (mv \<in> set cvs \<and> options_key (cv_options mv) = k)"
proof (induction cvs arbitrary: m0)
  case Nil
  then show ?case by simp
next
  case (Cons a cvs)
  from Cons.prems have
    "fold (\<lambda>v m. m(options_key (cv_options v) \<mapsto> v)) cvs
       (m0(options_key (cv_options a) \<mapsto> a)) k = Some mv"
    by (simp only: fold.simps o_apply)
  from Cons.IH[OF this] show ?case
    by (auto split: if_splits)
qed

lemma new_variants_map_dom:
  "dom (new_variants_map cvs) = (\<lambda>v. options_key (cv_options v)) ` set cvs"
  by (simp add: new_variants_map_def fold_update_dom)

lemma new_variants_map_Some:
  "new_variants_map cvs k = Some mv \<Longrightarrow> mv \<in> set cvs \<and> options_key (cv_options mv) = k"
  using fold_update_Some[of cvs Map.empty k mv] by (simp add: new_variants_map_def)

section \<open>The stock reconciler: classification\<close>

text \<open>
  C1. The reconciler's loop produces one entry per variant, with the variant's identifier
  and price. The entry of a variant that is enabled and whose identifier is not available
  is disabled; the entry of a variant that is disabled and whose identifier is available
  is enabled; the entry of any other variant keeps the variant's enabled flag. The entry
  does not depend on the position: the same variant at any position of any other list
  gets the same entry.
\<close>

theorem reconciler_classifies_each_variant:
  "length (fst (stock_loop A vs ([], False, False))) = length vs \<and>
   (\<forall>i<length vs.
      pv_id (fst (stock_loop A vs ([], False, False)) ! i) = sv_id (vs ! i) \<and>
      pv_price (fst (stock_loop A vs ([], False, False)) ! i) = sv_price (vs ! i) \<and>
      (sv_is_enabled (vs ! i) \<and> sv_id (vs ! i) \<notin> A \<longrightarrow>
         pv_is_enabled (fst (stock_loop A vs ([], False, False)) ! i) = False) \<and>
      (\<not> sv_is_enabled (vs ! i) \<and> sv_id (vs ! i) \<in> A \<longrightarrow>
         pv_is_enabled (fst (stock_loop A vs ([], False, False)) ! i) = True) \<and>
      (\<not> (sv_is_enabled (vs ! i) \<and> sv_id (vs ! i) \<notin> A) \<and>
       \<not> (\<not> sv_is_enabled (vs ! i) \<and> sv_id (vs ! i) \<in> A) \<longrightarrow>
         pv_is_enabled (fst (stock_loop A vs ([], False, False)) ! i) = sv_is_enabled (vs ! i))) \<and>
   (\<forall>i<length vs. \<forall>j<length ws.
      vs ! i = ws ! j \<longrightarrow>
        fst (stock_loop A vs ([], False, False)) ! i = fst (stock_loop A ws ([], False, False)) ! j)"
  by (auto simp: stock_loop_eq)

theorem reconciler_classifies_each_variant_witness:
  "(0::nat) < length [variant_S, variant_M, variant_L, variant_XL] \<and>
   sv_is_enabled variant_S \<and> sv_id variant_S \<notin> {2, 3} \<and>
   \<not> pv_is_enabled
        (fst (stock_loop {2, 3} [variant_S, variant_M, variant_L, variant_XL] ([], False, False)) ! 0) \<and>
   \<not> sv_is_enabled variant_M \<and> sv_id variant_M \<in> {2, 3} \<and>
   pv_is_enabled
     (fst (stock_loop {2, 3} [variant_S, variant_M, variant_L, variant_XL] ([], False, False)) ! 1) \<and>
   sv_is_enabled variant_L \<and> sv_id variant_L \<in> {2, 3} \<and>
   pv_is_enabled
     (fst (stock_loop {2, 3} [variant_S, variant_M, variant_L, variant_XL] ([], False, False)) ! 2) \<and>
   \<not> sv_is_enabled variant_XL \<and> sv_id variant_XL \<notin> {2, 3} \<and>
   \<not> pv_is_enabled
        (fst (stock_loop {2, 3} [variant_S, variant_M, variant_L, variant_XL] ([], False, False)) ! 3) \<and>
   [variant_S, variant_M, variant_L, variant_XL] ! 0 = [variant_XL, variant_S] ! 1 \<and>
   fst (stock_loop {2, 3} [variant_S, variant_M, variant_L, variant_XL] ([], False, False)) ! 0 =
   fst (stock_loop {2, 3} [variant_XL, variant_S] ([], False, False)) ! 1"
  using reconciler_classifies_each_variant
          [of "{2, 3}" "[variant_S, variant_M, variant_L, variant_XL]" "[variant_XL, variant_S]"]
  by (simp add: variant_S_def variant_M_def variant_L_def variant_XL_def)

section \<open>Evaluation of the example inputs\<close>

lemmas fixture_defs = variant_S_def variant_M_def variant_L_def variant_XL_def variant_plain_def
  tee_product_def mug_product_def cap_product_def bag_product_def poster_product_def
  shop_blueprints_def shop_catalogs_def shop_client_def

lemmas run_defs = sync_product_def attempt_provider_failover_def emit_def new_variants_map_def
  options_key_def final_payload_after_failover_def sync_product_inventory_def

section \<open>The failover matcher: the loops\<close>

lemma remap_variants_prefix:
  "remap_variants m vs acc = (ok, pl) \<Longrightarrow>
   \<exists>n\<le>length vs.
     pl = acc @ map (\<lambda>sv. \<lparr>pv_id = cv_id (the (m (options_key (sv_options sv)))),
                            pv_price = sv_price sv, pv_is_enabled = sv_is_enabled sv\<rparr>) (take n vs) \<and>
     (\<forall>sv\<in>set (take n vs). m (options_key (sv_options sv)) \<noteq> None)"
proof (induction vs arbitrary: acc)
  case Nil
  then show ?case by simp
next
  case (Cons sv vs)
  show ?case
  proof (cases "m (options_key (sv_options sv))")
    case None
    with Cons.prems have "pl = acc" by simp
    then show ?thesis by (intro exI[of _ 0]) simp
  next
    case (Some mv)
    with Cons.prems have
      "remap_variants m vs
         (acc @ [\<lparr>pv_id = cv_id mv, pv_price = sv_price sv, pv_is_enabled = sv_is_enabled sv\<rparr>]) =
       (ok, pl)"
      by simp
    from Cons.IH[OF this] obtain n where n: "n \<le> length vs"
      "pl = (acc @ [\<lparr>pv_id = cv_id mv, pv_price = sv_price sv, pv_is_enabled = sv_is_enabled sv\<rparr>]) @
            map (\<lambda>sv. \<lparr>pv_id = cv_id (the (m (options_key (sv_options sv)))),
                       pv_price = sv_price sv, pv_is_enabled = sv_is_enabled sv\<rparr>) (take n vs)"
      "\<forall>sv\<in>set (take n vs). m (options_key (sv_options sv)) \<noteq> None"
      by blast
    with Some show ?thesis by (intro exI[of _ "Suc n"]) simp
  qed
qed

lemma remap_variants_frame:
  "remap_variants m (map (\<lambda>sv. sv\<lparr>sv_id := f sv, sv_title := g sv\<rparr>) vs) acc =
   remap_variants m vs acc"
  by (induction vs arbitrary: acc) (auto split: option.splits)

lemma provider_loop_reject:
  "get_blueprint_variants c bid (provider_id p) = Some cvs \<Longrightarrow>
   \<exists>sv\<in>set vs. new_variants_map cvs (options_key (sv_options sv)) = None \<Longrightarrow>
   provider_loop c bid cur vs (p # ps) =
     (if provider_id p = cur then provider_loop c bid cur vs ps
      else emit (GetBlueprintVariants bid (provider_id p)) (provider_loop c bid cur vs ps))"
  using remap_variants_fail[of vs "new_variants_map cvs" "[]"]
  by (cases "remap_variants (new_variants_map cvs) vs []") auto

lemma provider_loop_accept:
  "provider_id p \<noteq> cur \<Longrightarrow>
   get_blueprint_variants c bid (provider_id p) = Some cvs \<Longrightarrow>
   \<forall>sv\<in>set vs. new_variants_map cvs (options_key (sv_options sv)) \<noteq> None \<Longrightarrow>
   provider_loop c bid cur vs (p # ps) =
     (Some (provider_id p,
        map (\<lambda>sv. \<lparr>pv_id = cv_id (the (new_variants_map cvs (options_key (sv_options sv)))),
                   pv_price = sv_price sv, pv_is_enabled = sv_is_enabled sv\<rparr>) vs),
      [GetBlueprintVariants bid (provider_id p)])"
  using remap_variants_all[of vs "new_variants_map cvs" "[]"]
  by (simp add: emit_def)

lemma provider_loop_Some:
  "fst (provider_loop c bid cur vs ps) = Some (pid, pl) \<Longrightarrow>
   pid \<noteq> cur \<and> pid \<in> provider_id ` set ps \<and>
   (\<exists>cvs. get_blueprint_variants c bid pid = Some cvs \<and>
          remap_variants (new_variants_map cvs) vs [] = (True, pl))"
proof (induction ps)
  case Nil
  then show ?case by simp
next
  case (Cons p ps)
  show ?case
  proof (cases "provider_id p = cur")
    case True
    with Cons show ?thesis by auto
  next
    case False
    show ?thesis
    proof (cases "get_blueprint_variants c bid (provider_id p)")
      case None
      with False Cons show ?thesis by (auto simp: emit_def)
    next
      case (Some cvs)
      obtain ok pl' where r: "remap_variants (new_variants_map cvs) vs [] = (ok, pl')"
        by (cases "remap_variants (new_variants_map cvs) vs []") auto
      show ?thesis
      proof (cases ok)
        case True
        with False Some r Cons.prems show ?thesis by (auto simp: emit_def)
      next
        case False
        with \<open>provider_id p \<noteq> cur\<close> Some r Cons show ?thesis by (auto simp: emit_def)
      qed
    qed
  qed
qed

lemma provider_loop_first_fit:
  assumes "provider_id p \<noteq> cur"
    and "get_blueprint_variants c bid (provider_id p) = Some cvs"
    and "\<forall>sv\<in>set vs. new_variants_map cvs (options_key (sv_options sv)) \<noteq> None"
    and "\<forall>q\<in>set pre. provider_id q = cur \<or>
           (case get_blueprint_variants c bid (provider_id q) of
              None \<Rightarrow> True
            | Some qvs \<Rightarrow> \<exists>sv\<in>set vs. new_variants_map qvs (options_key (sv_options sv)) = None)"
  shows "provider_loop c bid cur vs (pre @ p # post) =
     (Some (provider_id p,
        map (\<lambda>sv. \<lparr>pv_id = cv_id (the (new_variants_map cvs (options_key (sv_options sv)))),
                   pv_price = sv_price sv, pv_is_enabled = sv_is_enabled sv\<rparr>) vs),
      map (\<lambda>q. GetBlueprintVariants bid (provider_id q))
        (filter (\<lambda>q. provider_id q \<noteq> cur) (pre @ [p])))"
  using assms(4)
proof (induction pre)
  case Nil
  show ?case using provider_loop_accept[OF assms(1-3)] assms(1) by simp
next
  case (Cons q pre)
  then have IH: "provider_loop c bid cur vs (pre @ p # post) =
     (Some (provider_id p,
        map (\<lambda>sv. \<lparr>pv_id = cv_id (the (new_variants_map cvs (options_key (sv_options sv)))),
                   pv_price = sv_price sv, pv_is_enabled = sv_is_enabled sv\<rparr>) vs),
      map (\<lambda>q. GetBlueprintVariants bid (provider_id q))
        (filter (\<lambda>q. provider_id q \<noteq> cur) (pre @ [p])))"
    by simp
  show ?case
  proof (cases "provider_id q = cur")
    case True
    with IH show ?thesis by simp
  next
    case False
    show ?thesis
    proof (cases "get_blueprint_variants c bid (provider_id q)")
      case None
      with False IH show ?thesis by (simp add: emit_def)
    next
      case (Some qvs)
      with False Cons.prems have
        "\<exists>sv\<in>set vs. new_variants_map qvs (options_key (sv_options sv)) = None"
        by simp
      from provider_loop_reject[OF Some this, where cur = cur and ps = "pre @ p # post"] False IH
      show ?thesis by (simp add: emit_def)
    qed
  qed
qed

lemma new_variants_map_None:
  "(new_variants_map cvs k = None) = (\<forall>cv\<in>set cvs. options_key (cv_options cv) \<noteq> k)"
proof -
  have "(new_variants_map cvs k = None) = (k \<notin> dom (new_variants_map cvs))"
    by (simp add: domIff)
  also have "\<dots> = (\<forall>cv\<in>set cvs. options_key (cv_options cv) \<noteq> k)"
    unfolding new_variants_map_dom by auto
  finally show ?thesis .
qed

lemma remap_variants_True:
  assumes "remap_variants (new_variants_map cvs) vs [] = (True, pl)"
  shows "length pl = length vs"
    and "i < length vs \<Longrightarrow> \<exists>mv\<in>set cvs.
           options_key (cv_options mv) = options_key (sv_options (vs ! i)) \<and>
           pl ! i = \<lparr>pv_id = cv_id mv, pv_price = sv_price (vs ! i),
                      pv_is_enabled = sv_is_enabled (vs ! i)\<rparr>"
proof -
  from assms have all: "\<forall>sv\<in>set vs. new_variants_map cvs (options_key (sv_options sv)) \<noteq> None"
    using remap_variants_fst[of "new_variants_map cvs" vs "[]"] by simp
  from remap_variants_all[OF all, of "[]"] assms
  have pl: "pl = map (\<lambda>sv. \<lparr>pv_id = cv_id (the (new_variants_map cvs (options_key (sv_options sv)))),
                             pv_price = sv_price sv, pv_is_enabled = sv_is_enabled sv\<rparr>) vs"
    by simp
  then show "length pl = length vs" by simp
  assume i: "i < length vs"
  with all obtain mv where mv: "new_variants_map cvs (options_key (sv_options (vs ! i))) = Some mv"
    by (meson nth_mem not_Some_eq)
  from new_variants_map_Some[OF mv] mv pl i
  show "\<exists>mv\<in>set cvs.
           options_key (cv_options mv) = options_key (sv_options (vs ! i)) \<and>
           pl ! i = \<lparr>pv_id = cv_id mv, pv_price = sv_price (vs ! i),
                      pv_is_enabled = sv_is_enabled (vs ! i)\<rparr>"
    by auto
qed

lemma attempt_provider_failover_Some:
  assumes "fst (attempt_provider_failover c prd vs) = Some (pid, pl)"
  shows "pid \<noteq> print_provider_id prd \<and>
         (\<exists>cvs. get_blueprint_variants c (blueprint_id prd) pid = Some cvs \<and>
                remap_variants (new_variants_map cvs) vs [] = (True, pl))"
proof (cases "get_blueprint_details c (blueprint_id prd)")
  case None
  with assms show ?thesis by (simp add: attempt_provider_failover_def emit_def)
next
  case (Some bd)
  with assms have
    "fst (provider_loop c (blueprint_id prd) (print_provider_id prd) vs (print_providers bd)) =
       Some (pid, pl)"
    by (simp add: attempt_provider_failover_def emit_def)
  from provider_loop_Some[OF this] show ?thesis by blast
qed

text \<open>
  C2. A provider switch is all or nothing. When the matcher returns a provider, that
  provider's catalog was available, the remapped list has one entry per store variant, and
  every entry comes from a catalog variant with the store variant's normalised option set.
  When a candidate's catalog lacks a match for even one store variant, the inner loop
  reports failure and the result of the search is the result of the search over the
  remaining candidates: the entries collected before the failure are dropped.
\<close>

theorem failover_is_all_or_nothing:
  "(fst (attempt_provider_failover c prd vs) = Some (pid, pl) \<longrightarrow>
      length pl = length vs \<and>
      (\<exists>cvs. get_blueprint_variants c (blueprint_id prd) pid = Some cvs \<and>
         (\<forall>i<length vs. \<exists>mv\<in>set cvs.
            options_key (cv_options mv) = options_key (sv_options (vs ! i)) \<and>
            pl ! i = \<lparr>pv_id = cv_id mv, pv_price = sv_price (vs ! i),
                       pv_is_enabled = sv_is_enabled (vs ! i)\<rparr>))) \<and>
   (get_blueprint_variants c bid (provider_id p) = Some qvs \<and>
    (\<exists>sv\<in>set vs. \<forall>cv\<in>set qvs. options_key (cv_options cv) \<noteq> options_key (sv_options sv)) \<longrightarrow>
      fst (remap_variants (new_variants_map qvs) vs []) = False \<and>
      fst (provider_loop c bid cur vs (p # ps)) = fst (provider_loop c bid cur vs ps))"
proof (intro conjI impI)
  assume a: "fst (attempt_provider_failover c prd vs) = Some (pid, pl)"
  from attempt_provider_failover_Some[OF a] obtain cvs where
    cvs: "get_blueprint_variants c (blueprint_id prd) pid = Some cvs"
      "remap_variants (new_variants_map cvs) vs [] = (True, pl)"
    by blast
  show "length pl = length vs" by (rule remap_variants_True(1)[OF cvs(2)])
  show "\<exists>cvs. get_blueprint_variants c (blueprint_id prd) pid = Some cvs \<and>
         (\<forall>i<length vs. \<exists>mv\<in>set cvs.
            options_key (cv_options mv) = options_key (sv_options (vs ! i)) \<and>
            pl ! i = \<lparr>pv_id = cv_id mv, pv_price = sv_price (vs ! i),
                       pv_is_enabled = sv_is_enabled (vs ! i)\<rparr>)"
    using cvs(1) remap_variants_True(2)[OF cvs(2)] by blast
next
  assume b: "get_blueprint_variants c bid (provider_id p) = Some qvs \<and>
    (\<exists>sv\<in>set vs. \<forall>cv\<in>set qvs. options_key (cv_options cv) \<noteq> options_key (sv_options sv))"
  then have un: "\<exists>sv\<in>set vs. new_variants_map qvs (options_key (sv_options sv)) = None"
    by (simp add: new_variants_map_None)
  from remap_variants_fail[OF un]
  show "fst (remap_variants (new_variants_map qvs) vs []) = False" .
  from b provider_loop_reject[OF _ un, of c bid p cur ps]
  show "fst (provider_loop c bid cur vs (p # ps)) = fst (provider_loop c bid cur vs ps)"
    by (simp add: emit_def)
qed

theorem failover_is_all_or_nothing_witness:
  "fst (attempt_provider_failover shop_client tee_product (variants tee_product)) =
     Some (7, [\<lparr>pv_id = 71, pv_price = 1999, pv_is_enabled = True\<rparr>,
               \<lparr>pv_id = 73, pv_price = 2199, pv_is_enabled = True\<rparr>]) \<and>
   length [\<lparr>pv_id = 71, pv_price = 1999, pv_is_enabled = True\<rparr>,
           \<lparr>pv_id = 73, pv_price = 2199, pv_is_enabled = True\<rparr>] = length (variants tee_product) \<and>
   get_blueprint_variants shop_client 6 (provider_id \<lparr>provider_id = 3, provider_title = ''Partial''\<rparr>) =
     Some [\<lparr>cv_id = 31, cv_options = [(''size'', ''S'')]\<rparr>] \<and>
   variant_L \<in> set (variants tee_product) \<and>
   options_key (cv_options \<lparr>cv_id = 31, cv_options = [(''size'', ''S'')]\<rparr>) \<noteq>
     options_key (sv_options variant_L) \<and>
   fst (remap_variants (new_variants_map [\<lparr>cv_id = 31, cv_options = [(''size'', ''S'')]\<rparr>])
          (variants tee_product) []) = False \<and>
   fst (provider_loop shop_client 6 5 (variants tee_product)
          [\<lparr>provider_id = 3, provider_title = ''Partial''\<rparr>,
           \<lparr>provider_id = 7, provider_title = ''First''\<rparr>]) =
   fst (provider_loop shop_client 6 5 (variants tee_product)
          [\<lparr>provider_id = 7, provider_title = ''First''\<rparr>])"
  using failover_is_all_or_nothing
          [of shop_client tee_product "variants tee_product" 7
              "[\<lparr>pv_id = 71, pv_price = 1999, pv_is_enabled = True\<rparr>,
                \<lparr>pv_id = 73, pv_price = 2199, pv_is_enabled = True\<rparr>]"
              6 "\<lparr>provider_id = 3, provider_title = ''Partial''\<rparr>"
              "[\<lparr>cv_id = 31, cv_options = [(''size'', ''S'')]\<rparr>]" 5
              "[\<lparr>provider_id = 7, provider_title = ''First''\<rparr>]"]
  by (simp add: fixture_defs run_defs)

section \<open>The failover matcher: first fit\<close>

text \<open>
  C4. The matcher walks the blueprint's provider list in the order given and skips every
  entry whose identifier is the current provider's. Let a provider of the list be a
  candidate other than the current provider whose catalog is available and holds a
  variant with the normalised option set of every store variant, and let every entry
  before it be the current provider, or lack catalog data, or leave some store variant
  unmatched. Then the matcher returns that provider, whatever comes after it in the list,
  with one remapped entry per store variant. The catalogs it has fetched are those of the
  entries up to and including the winner, the current provider apart, in list order.
\<close>

theorem first_fit_provider_is_chosen:
  assumes "get_blueprint_details c (blueprint_id prd) = Some bd"
    and "print_providers bd = pre @ p # post"
    and "provider_id p \<noteq> print_provider_id prd"
    and "get_blueprint_variants c (blueprint_id prd) (provider_id p) = Some cvs"
    and "\<forall>sv\<in>set vs. \<exists>cv\<in>set cvs. options_key (cv_options cv) = options_key (sv_options sv)"
    and "\<forall>q\<in>set pre. provider_id q = print_provider_id prd \<or>
           (case get_blueprint_variants c (blueprint_id prd) (provider_id q) of
              None \<Rightarrow> True
            | Some qvs \<Rightarrow>
                \<exists>sv\<in>set vs. \<forall>cv\<in>set qvs.
                  options_key (cv_options cv) \<noteq> options_key (sv_options sv))"
  shows "\<exists>pl. length pl = length vs \<and>
           attempt_provider_failover c prd vs =
             (Some (provider_id p, pl),
              GetBlueprintDetails (blueprint_id prd) #
              map (\<lambda>q. GetBlueprintVariants (blueprint_id prd) (provider_id q))
                (filter (\<lambda>q. provider_id q \<noteq> print_provider_id prd) (pre @ [p])))"
proof -
  from assms(5) have all:
    "\<forall>sv\<in>set vs. new_variants_map cvs (options_key (sv_options sv)) \<noteq> None"
    by (simp add: new_variants_map_None)
  from assms(6) have rej:
    "\<forall>q\<in>set pre. provider_id q = print_provider_id prd \<or>
           (case get_blueprint_variants c (blueprint_id prd) (provider_id q) of
              None \<Rightarrow> True
            | Some qvs \<Rightarrow>
                \<exists>sv\<in>set vs. new_variants_map qvs (options_key (sv_options sv)) = None)"
    by (auto simp: new_variants_map_None split: option.splits)
  from provider_loop_first_fit[OF assms(3) assms(4) all rej, of post] assms(1) assms(2)
  show ?thesis
    by (simp add: attempt_provider_failover_def emit_def)
qed

theorem first_fit_provider_is_chosen_witness:
  "get_blueprint_details shop_client (blueprint_id tee_product) =
     Some \<lparr>print_providers =
       [\<lparr>provider_id = 5, provider_title = ''Current''\<rparr>,
        \<lparr>provider_id = 3, provider_title = ''Partial''\<rparr>,
        \<lparr>provider_id = 4, provider_title = ''Silent''\<rparr>] @
       \<lparr>provider_id = 7, provider_title = ''First''\<rparr> #
       [\<lparr>provider_id = 8, provider_title = ''Second''\<rparr>]\<rparr> \<and>
   fst (remap_variants
          (new_variants_map
             [\<lparr>cv_id = 81, cv_options = [(''size'', ''S'')]\<rparr>,
              \<lparr>cv_id = 83, cv_options = [(''color'', ''Black''), (''size'', ''L'')]\<rparr>])
          (variants tee_product) []) \<and>
   attempt_provider_failover shop_client tee_product (variants tee_product) =
     (Some (7, [\<lparr>pv_id = 71, pv_price = 1999, pv_is_enabled = True\<rparr>,
                \<lparr>pv_id = 73, pv_price = 2199, pv_is_enabled = True\<rparr>]),
      [GetBlueprintDetails 6, GetBlueprintVariants 6 3, GetBlueprintVariants 6 4,
       GetBlueprintVariants 6 7])"
  using first_fit_provider_is_chosen
          [of shop_client tee_product
              "\<lparr>print_providers =
                 [\<lparr>provider_id = 5, provider_title = ''Current''\<rparr>,
                  \<lparr>provider_id = 3, provider_title = ''Partial''\<rparr>,
                  \<lparr>provider_id = 4, provider_title = ''Silent''\<rparr>,
                  \<lparr>provider_id = 7, provider_title = ''First''\<rparr>,
                  \<lparr>provider_id = 8, provider_title = ''Second''\<rparr>]\<rparr>"
              "[\<lparr>provider_id = 5, provider_title = ''Current''\<rparr>,
                \<lparr>provider_id = 3, provider_title = ''Partial''\<rparr>,
                \<lparr>provider_id = 4, provider_title = ''Silent''\<rparr>]"
              "\<lparr>provider_id = 7, provider_title = ''First''\<rparr>"
              "[\<lparr>provider_id = 8, provider_title = ''Second''\<rparr>]"
              "[\<lparr>cv_id = 71, cv_options = [(''size'', ''S'')]\<rparr>,
                \<lparr>cv_id = 73, cv_options = [(''color'', ''Black''), (''size'', ''L'')]\<rparr>]"
              "variants tee_product"]
  by (simp add: fixture_defs run_defs)

section \<open>The failover matcher: option sets\<close>

lemma options_key_eq:
  assumes "distinct (map fst a)" and "distinct (map fst b)" and "set a = set b"
  shows "options_key a = options_key b"
proof -
  from assms(1) have da: "distinct a" by (rule distinct_map [THEN iffD1, THEN conjunct1])
  from assms(2) have db: "distinct b" by (rule distinct_map [THEN iffD1, THEN conjunct1])
  have "sort a = sort b"
    by (rule sorted_distinct_set_unique) (simp_all add: da db assms(3))
  then show ?thesis by (simp add: options_key_def)
qed

text \<open>
  C5. Matching does not depend on the order of the option pairs. When the option mapping
  of a store variant and that of a candidate variant hold the same (category, value)
  pairs, in whatever order, their normalised keys are equal; and when that candidate
  variant is in the catalog, the lookup of the store variant finds a catalog variant with
  that key, so the store variant is remapped.
\<close>

theorem option_matching_ignores_pair_order:
  assumes "distinct (map fst (sv_options sv))"
    and "distinct (map fst (cv_options cv))"
    and "set (sv_options sv) = set (cv_options cv)"
  shows "options_key (sv_options sv) = options_key (cv_options cv) \<and>
         (cv \<in> set cvs \<longrightarrow>
            (\<exists>mv\<in>set cvs.
               options_key (cv_options mv) = options_key (cv_options cv) \<and>
               remap_variants (new_variants_map cvs) [sv] [] =
                 (True, [\<lparr>pv_id = cv_id mv, pv_price = sv_price sv,
                           pv_is_enabled = sv_is_enabled sv\<rparr>])))"
proof (intro conjI impI)
  show key: "options_key (sv_options sv) = options_key (cv_options cv)"
    by (rule options_key_eq [OF assms])
  assume "cv \<in> set cvs"
  then have "new_variants_map cvs (options_key (sv_options sv)) \<noteq> None"
    by (auto simp: new_variants_map_None key)
  then obtain mv where mv: "new_variants_map cvs (options_key (sv_options sv)) = Some mv"
    by blast
  from new_variants_map_Some [OF mv] mv key
  show "\<exists>mv\<in>set cvs.
          options_key (cv_options mv) = options_key (cv_options cv) \<and>
          remap_variants (new_variants_map cvs) [sv] [] =
            (True, [\<lparr>pv_id = cv_id mv, pv_price = sv_price sv,
                      pv_is_enabled = sv_is_enabled sv\<rparr>])"
    by auto
qed

theorem option_matching_ignores_pair_order_witness:
  "distinct (map fst (sv_options variant_L)) \<and>
   distinct (map fst (cv_options \<lparr>cv_id = 73, cv_options = [(''color'', ''Black''), (''size'', ''L'')]\<rparr>)) \<and>
   sv_options variant_L = [(''size'', ''L''), (''color'', ''Black'')] \<and>
   set (sv_options variant_L) =
     set (cv_options \<lparr>cv_id = 73, cv_options = [(''color'', ''Black''), (''size'', ''L'')]\<rparr>) \<and>
   options_key (sv_options variant_L) =
     options_key (cv_options \<lparr>cv_id = 73, cv_options = [(''color'', ''Black''), (''size'', ''L'')]\<rparr>) \<and>
   \<lparr>cv_id = 73, cv_options = [(''color'', ''Black''), (''size'', ''L'')]\<rparr> \<in>
     set [\<lparr>cv_id = 71, cv_options = [(''size'', ''S'')]\<rparr>,
          \<lparr>cv_id = 73, cv_options = [(''color'', ''Black''), (''size'', ''L'')]\<rparr>] \<and>
   remap_variants
     (new_variants_map
        [\<lparr>cv_id = 71, cv_options = [(''size'', ''S'')]\<rparr>,
         \<lparr>cv_id = 73, cv_options = [(''color'', ''Black''), (''size'', ''L'')]\<rparr>])
     [variant_L] [] =
     (True, [\<lparr>pv_id = 73, pv_price = 2199, pv_is_enabled = True\<rparr>])"
  using option_matching_ignores_pair_order
          [of variant_L "\<lparr>cv_id = 73, cv_options = [(''color'', ''Black''), (''size'', ''L'')]\<rparr>"
              "[\<lparr>cv_id = 71, cv_options = [(''size'', ''S'')]\<rparr>,
                \<lparr>cv_id = 73, cv_options = [(''color'', ''Black''), (''size'', ''L'')]\<rparr>]"]
  by (auto simp: fixture_defs run_defs)

section \<open>The failover matcher: remapped entries\<close>

text \<open>
  C8. Every entry the inner loop appends, whether or not the loop later breaks, carries
  the price and the enabled flag of the store variant at the same position, and the
  identifier of a catalog variant whose normalised option set is that store variant's.
  The identifier and the title of a store variant have no influence: replacing them in
  any way leaves the result of the loop unchanged.
\<close>

theorem remapped_entry_keeps_price_and_flag:
  "(remap_variants (new_variants_map cvs) vs [] = (ok, pl) \<longrightarrow>
      length pl \<le> length vs \<and>
      (\<forall>i<length pl. \<exists>mv\<in>set cvs.
         options_key (cv_options mv) = options_key (sv_options (vs ! i)) \<and>
         pl ! i = \<lparr>pv_id = cv_id mv, pv_price = sv_price (vs ! i),
                    pv_is_enabled = sv_is_enabled (vs ! i)\<rparr>)) \<and>
   remap_variants m (map (\<lambda>sv. sv\<lparr>sv_id := f sv, sv_title := g sv\<rparr>) vs) [] =
     remap_variants m vs []"
proof (intro conjI impI)
  assume r: "remap_variants (new_variants_map cvs) vs [] = (ok, pl)"
  from remap_variants_prefix [OF r] obtain n where n: "n \<le> length vs"
    "pl = map (\<lambda>sv. \<lparr>pv_id = cv_id (the (new_variants_map cvs (options_key (sv_options sv)))),
                     pv_price = sv_price sv, pv_is_enabled = sv_is_enabled sv\<rparr>) (take n vs)"
    "\<forall>sv\<in>set (take n vs). new_variants_map cvs (options_key (sv_options sv)) \<noteq> None"
    by auto
  from n show "length pl \<le> length vs" by simp
  show "\<forall>i<length pl. \<exists>mv\<in>set cvs.
         options_key (cv_options mv) = options_key (sv_options (vs ! i)) \<and>
         pl ! i = \<lparr>pv_id = cv_id mv, pv_price = sv_price (vs ! i),
                    pv_is_enabled = sv_is_enabled (vs ! i)\<rparr>"
  proof (intro allI impI)
    fix i assume "i < length pl"
    with n have i: "i < n" "i < length vs" by simp_all
    with n(1) have "take n vs ! i \<in> set (take n vs)" by (intro nth_mem) simp
    with i have "vs ! i \<in> set (take n vs)" by simp
    with n(3) obtain mv where
      mv: "new_variants_map cvs (options_key (sv_options (vs ! i))) = Some mv"
      by blast
    from new_variants_map_Some [OF mv] mv i n(2)
    show "\<exists>mv\<in>set cvs.
         options_key (cv_options mv) = options_key (sv_options (vs ! i)) \<and>
         pl ! i = \<lparr>pv_id = cv_id mv, pv_price = sv_price (vs ! i),
                    pv_is_enabled = sv_is_enabled (vs ! i)\<rparr>"
      by auto
  qed
next
  show "remap_variants m (map (\<lambda>sv. sv\<lparr>sv_id := f sv, sv_title := g sv\<rparr>) vs) [] =
     remap_variants m vs []"
    by (rule remap_variants_frame)
qed

theorem remapped_entry_keeps_price_and_flag_witness:
  "remap_variants
     (new_variants_map
        [\<lparr>cv_id = 71, cv_options = [(''size'', ''S'')]\<rparr>,
         \<lparr>cv_id = 73, cv_options = [(''color'', ''Black''), (''size'', ''L'')]\<rparr>])
     [variant_S, variant_L, variant_M] [] =
     (False, [\<lparr>pv_id = 71, pv_price = 1999, pv_is_enabled = True\<rparr>,
              \<lparr>pv_id = 73, pv_price = 2199, pv_is_enabled = True\<rparr>]) \<and>
   (1::nat) < length [\<lparr>pv_id = 71, pv_price = 1999, pv_is_enabled = True\<rparr>,
                      \<lparr>pv_id = 73, pv_price = 2199, pv_is_enabled = True\<rparr>] \<and>
   sv_price ([variant_S, variant_L, variant_M] ! 1) = 2199 \<and>
   sv_is_enabled ([variant_S, variant_L, variant_M] ! 1) \<and>
   sv_id ([variant_S, variant_L, variant_M] ! 1) = 3 \<and>
   remap_variants
     (new_variants_map
        [\<lparr>cv_id = 71, cv_options = [(''size'', ''S'')]\<rparr>,
         \<lparr>cv_id = 73, cv_options = [(''color'', ''Black''), (''size'', ''L'')]\<rparr>])
     (map (\<lambda>sv. sv\<lparr>sv_id := 1000 + sv_id sv, sv_title := ''renamed''\<rparr>)
        [variant_S, variant_L, variant_M]) [] =
     (False, [\<lparr>pv_id = 71, pv_price = 1999, pv_is_enabled = True\<rparr>,
              \<lparr>pv_id = 73, pv_price = 2199, pv_is_enabled = True\<rparr>])"
  using remapped_entry_keeps_price_and_flag
          [where cvs = "[\<lparr>cv_id = 71, cv_options = [(''size'', ''S'')]\<rparr>,
                \<lparr>cv_id = 73, cv_options = [(''color'', ''Black''), (''size'', ''L'')]\<rparr>]"
             and vs = "[variant_S, variant_L, variant_M]" and ok = False
             and pl = "[\<lparr>pv_id = 71, pv_price = 1999, pv_is_enabled = True\<rparr>,
                \<lparr>pv_id = 73, pv_price = 2199, pv_is_enabled = True\<rparr>]"
             and m = "new_variants_map
                 [\<lparr>cv_id = 71, cv_options = [(''size'', ''S'')]\<rparr>,
                  \<lparr>cv_id = 73, cv_options = [(''color'', ''Black''), (''size'', ''L'')]\<rparr>]"
             and f = "\<lambda>sv. 1000 + sv_id sv" and g = "\<lambda>sv. ''renamed''"]
  by (simp add: fixture_defs run_defs)

section \<open>The stock reconciler: the payload sent\<close>

lemma sync_product_eq:
  assumes "get_blueprint_variants c (blueprint_id prd) (print_provider_id prd) = Some live"
  shows "sync_product c prd =
     GetBlueprintVariants (blueprint_id prd) (print_provider_id prd) #
     (if \<not> (\<exists>v\<in>set (variants prd). sv_is_enabled v \<noteq> (sv_id v \<in> cv_id ` set live)) then []
      else if \<exists>v\<in>set (variants prd). sv_is_enabled v \<and> sv_id v \<notin> cv_id ` set live then
        snd (attempt_provider_failover c prd (variants prd)) @
        [UpdateProduct (product_id prd)
           (final_payload_after_failover (fst (attempt_provider_failover c prd (variants prd)))
              (fst (stock_loop (cv_id ` set live) (variants prd) ([], False, False)))),
         Sleep]
      else
        [UpdateProduct (product_id prd)
           (VariantsOnly (fst (stock_loop (cv_id ` set live) (variants prd) ([], False, False)))),
         Sleep])"
  using assms by (auto simp add: sync_product_def stock_loop_eq split: prod.splits)

lemma attempt_provider_failover_calls:
  "snd (attempt_provider_failover c prd vs) \<noteq> [] \<and>
   hd (snd (attempt_provider_failover c prd vs)) = GetBlueprintDetails (blueprint_id prd)"
  by (simp add: attempt_provider_failover_def emit_def)

text \<open>
  C6. When the catalog of the current provider is available and every variant is enabled
  exactly when its identifier is available, the only call the reconciler makes for the
  product is the catalog fetch: there is no \<open>UpdateProduct\<close> call, and no
  \<open>GetBlueprintDetails\<close> call, which is the first call of every run of the matcher.
\<close>

theorem in_sync_product_makes_no_call:
  assumes "get_blueprint_variants c (blueprint_id prd) (print_provider_id prd) = Some live"
    and "\<forall>v\<in>set (variants prd). sv_is_enabled v = (sv_id v \<in> cv_id ` set live)"
  shows "sync_product c prd = [GetBlueprintVariants (blueprint_id prd) (print_provider_id prd)] \<and>
         hd (snd (attempt_provider_failover c prd (variants prd))) \<notin> set (sync_product c prd) \<and>
         (\<forall>i pl. UpdateProduct i pl \<notin> set (sync_product c prd))"
  using assms(2) sync_product_eq [OF assms(1)] attempt_provider_failover_calls [of c prd "variants prd"]
  by simp

theorem in_sync_product_makes_no_call_witness:
  "get_blueprint_variants shop_client (blueprint_id cap_product) (print_provider_id cap_product) =
     Some [\<lparr>cv_id = 3, cv_options = [(''size'', ''L''), (''color'', ''Black'')]\<rparr>] \<and>
   variants cap_product = [variant_L, variant_XL] \<and>
   sv_is_enabled variant_L \<and> sv_id variant_L = 3 \<and>
   \<not> sv_is_enabled variant_XL \<and> sv_id variant_XL = 4 \<and>
   sync_product shop_client cap_product = [GetBlueprintVariants 12 5]"
  using in_sync_product_makes_no_call
          [of shop_client cap_product
              "[\<lparr>cv_id = 3, cv_options = [(''size'', ''L''), (''color'', ''Black'')]\<rparr>]"]
  by (simp add: fixture_defs)

text \<open>
  C7. When the catalog of the current provider is available, no enabled variant is
  missing from it and at least one disabled variant is in it, the reconciler makes the
  catalog fetch, one \<open>UpdateProduct\<close> call and the pause, and nothing else: the matcher
  does not run. The payload is the list of all variants with their identifier and price,
  enabled for each restocked variant and with the current flag for the others.
\<close>

theorem restock_only_skips_failover:
  assumes "get_blueprint_variants c (blueprint_id prd) (print_provider_id prd) = Some live"
    and "\<forall>v\<in>set (variants prd). sv_is_enabled v \<longrightarrow> sv_id v \<in> cv_id ` set live"
    and "\<exists>v\<in>set (variants prd). \<not> sv_is_enabled v \<and> sv_id v \<in> cv_id ` set live"
  shows "sync_product c prd =
     [GetBlueprintVariants (blueprint_id prd) (print_provider_id prd),
      UpdateProduct (product_id prd)
        (VariantsOnly
           (map (\<lambda>v. \<lparr>pv_id = sv_id v, pv_price = sv_price v,
                      pv_is_enabled =
                        (if \<not> sv_is_enabled v \<and> sv_id v \<in> cv_id ` set live then True
                         else sv_is_enabled v)\<rparr>)
              (variants prd))),
      Sleep]"
proof -
  from assms(3) have ch:
    "\<exists>v\<in>set (variants prd). sv_is_enabled v \<noteq> (sv_id v \<in> cv_id ` set live)"
    by blast
  from assms(2) have no:
    "\<not> (\<exists>v\<in>set (variants prd). sv_is_enabled v \<and> sv_id v \<notin> cv_id ` set live)"
    by blast
  have m: "fst (stock_loop (cv_id ` set live) (variants prd) ([], False, False)) =
     map (\<lambda>v. \<lparr>pv_id = sv_id v, pv_price = sv_price v,
                pv_is_enabled =
                  (if \<not> sv_is_enabled v \<and> sv_id v \<in> cv_id ` set live then True
                   else sv_is_enabled v)\<rparr>)
        (variants prd)"
    using assms(2) by (simp add: stock_loop_eq)
  show ?thesis
    unfolding sync_product_eq [OF assms(1)] using ch no by (simp only: m if_True if_False simp_thms)
qed

theorem restock_only_skips_failover_witness:
  "get_blueprint_variants shop_client (blueprint_id bag_product) (print_provider_id bag_product) =
     Some [\<lparr>cv_id = 2, cv_options = [(''size'', ''M'')]\<rparr>,
           \<lparr>cv_id = 3, cv_options = [(''size'', ''L''), (''color'', ''Black'')]\<rparr>] \<and>
   variants bag_product = [variant_M, variant_L] \<and>
   \<not> sv_is_enabled variant_M \<and> sv_id variant_M = 2 \<and>
   sv_is_enabled variant_L \<and> sv_id variant_L = 3 \<and>
   sync_product shop_client bag_product =
     [GetBlueprintVariants 13 5,
      UpdateProduct 13
        (VariantsOnly [\<lparr>pv_id = 2, pv_price = 1999, pv_is_enabled = True\<rparr>,
                       \<lparr>pv_id = 3, pv_price = 2199, pv_is_enabled = True\<rparr>]),
      Sleep]"
  using restock_only_skips_failover
          [of shop_client bag_product
              "[\<lparr>cv_id = 2, cv_options = [(''size'', ''M'')]\<rparr>,
                \<lparr>cv_id = 3, cv_options = [(''size'', ''L''), (''color'', ''Black'')]\<rparr>]"]
  by (simp add: fixture_defs)

section \<open>The stock reconciler: failover and fallback\<close>

lemma attempt_provider_failover_length:
  assumes "attempt_provider_failover c prd vs = (Some (pid, pl), calls)"
  shows "length pl = length vs"
proof -
  from assms have "fst (attempt_provider_failover c prd vs) = Some (pid, pl)" by simp
  from attempt_provider_failover_Some [OF this] obtain cvs where
    "remap_variants (new_variants_map cvs) vs [] = (True, pl)"
    by blast
  then show ?thesis by (rule remap_variants_True(1))
qed

text \<open>
  C3. A matcher success must supersede the disable list. The reconciler does not do this
  when the alternative provider's identifier is 0: it tests the truth value of the returned
  identifier where the matcher reports failure by returning no identifier at all. The mug
  has its only variant out of stock, the matcher returns provider 0 with the complete
  remapped list, which is what it documents as success, and the payload sent is the list of
  disabled variants; no provider switch is sent.
\<close>

theorem failover_dropped_for_provider_zero:
  "get_blueprint_variants shop_client (blueprint_id mug_product) (print_provider_id mug_product) =
     Some [] \<and>
   variant_S \<in> set (variants mug_product) \<and>
   sv_is_enabled variant_S \<and> sv_id variant_S \<notin> cv_id ` set [] \<and>
   attempt_provider_failover shop_client mug_product (variants mug_product) =
     (Some (0, [\<lparr>pv_id = 99, pv_price = 1999, pv_is_enabled = True\<rparr>]),
      [GetBlueprintDetails 9, GetBlueprintVariants 9 0]) \<and>
   length [\<lparr>pv_id = 99, pv_price = 1999, pv_is_enabled = True\<rparr>] = length (variants mug_product) \<and>
   sync_product shop_client mug_product =
     [GetBlueprintVariants 9 5, GetBlueprintDetails 9, GetBlueprintVariants 9 0,
      UpdateProduct 11 (VariantsOnly [\<lparr>pv_id = 1, pv_price = 1999, pv_is_enabled = False\<rparr>]),
      Sleep] \<and>
   UpdateProduct 11 (ProviderSwitch 0 [\<lparr>pv_id = 99, pv_price = 1999, pv_is_enabled = True\<rparr>])
     \<notin> set (sync_product shop_client mug_product)"
  by (simp add: fixture_defs run_defs)

text \<open>
  For every other identifier the switch is sent. Whenever the catalog of the current
  provider is available, at least one variant is newly out of stock and the matcher returns
  an alternative provider whose identifier is not 0, the reconciler makes the catalog
  fetch, the matcher's calls, one \<open>UpdateProduct\<close> call and the pause, and the payload
  of that call is the provider switch: the returned provider identifier with the returned
  remapped list. The tee is an example.
\<close>

lemma sync_product_switch_nonzero:
  assumes "get_blueprint_variants c (blueprint_id prd) (print_provider_id prd) = Some live"
    and "\<exists>v\<in>set (variants prd). sv_is_enabled v \<and> sv_id v \<notin> cv_id ` set live"
    and "attempt_provider_failover c prd (variants prd) = (Some (pid, pl), calls)"
    and "pid \<noteq> 0"
  shows "sync_product c prd =
     GetBlueprintVariants (blueprint_id prd) (print_provider_id prd) #
     calls @ [UpdateProduct (product_id prd) (ProviderSwitch pid pl), Sleep]"
proof -
  from assms(2) have ne: "variants prd \<noteq> []" by auto
  from attempt_provider_failover_length [OF assms(3)] ne have pl: "pl \<noteq> []" by auto
  from assms(2) have ch:
    "\<exists>v\<in>set (variants prd). sv_is_enabled v \<noteq> (sv_id v \<in> cv_id ` set live)"
    by blast
  have fp: "final_payload_after_failover (Some (pid, pl)) vfu = ProviderSwitch pid pl" for vfu
    using assms(4) pl by (simp add: final_payload_after_failover_def)
  show ?thesis
    unfolding sync_product_eq [OF assms(1)] using ch assms(2)
    by (simp only: assms(3) fst_conv snd_conv fp if_True if_False simp_thms)
qed

lemma sync_product_switch_tee:
  "get_blueprint_variants shop_client (blueprint_id tee_product) (print_provider_id tee_product) =
     Some [\<lparr>cv_id = 3, cv_options = [(''size'', ''L''), (''color'', ''Black'')]\<rparr>] \<and>
   variant_S \<in> set (variants tee_product) \<and>
   sv_is_enabled variant_S \<and>
   sv_id variant_S \<notin>
     cv_id ` set [\<lparr>cv_id = 3, cv_options = [(''size'', ''L''), (''color'', ''Black'')]\<rparr>] \<and>
   attempt_provider_failover shop_client tee_product (variants tee_product) =
     (Some (7, [\<lparr>pv_id = 71, pv_price = 1999, pv_is_enabled = True\<rparr>,
                \<lparr>pv_id = 73, pv_price = 2199, pv_is_enabled = True\<rparr>]),
      [GetBlueprintDetails 6, GetBlueprintVariants 6 3, GetBlueprintVariants 6 4,
       GetBlueprintVariants 6 7]) \<and>
   sync_product shop_client tee_product =
     [GetBlueprintVariants 6 5, GetBlueprintDetails 6, GetBlueprintVariants 6 3,
      GetBlueprintVariants 6 4, GetBlueprintVariants 6 7,
      UpdateProduct 10
        (ProviderSwitch 7
           [\<lparr>pv_id = 71, pv_price = 1999, pv_is_enabled = True\<rparr>,
            \<lparr>pv_id = 73, pv_price = 2199, pv_is_enabled = True\<rparr>]),
      Sleep]"
  using sync_product_switch_nonzero
          [of shop_client tee_product
              "[\<lparr>cv_id = 3, cv_options = [(''size'', ''L''), (''color'', ''Black'')]\<rparr>]"
              7 "[\<lparr>pv_id = 71, pv_price = 1999, pv_is_enabled = True\<rparr>,
                  \<lparr>pv_id = 73, pv_price = 2199, pv_is_enabled = True\<rparr>]"
              "[GetBlueprintDetails 6, GetBlueprintVariants 6 3, GetBlueprintVariants 6 4,
                GetBlueprintVariants 6 7]"]
  by (simp add: fixture_defs run_defs)

text \<open>
  C10. The reconciler applies a returned provider switch only when the returned provider
  identifier and the returned list are both truthy. A result with provider identifier 0,
  or with an empty list, gives the variants-only payload; the payload is a provider switch
  only for a result with a nonzero identifier and a nonempty list. So when the catalog of
  the current provider is available, a variant is newly out of stock and the matcher
  succeeds with provider 0, the call sent carries the disable/restore list.
\<close>

theorem switch_needs_truthy_result:
  "final_payload_after_failover (Some (0, pl)) vfu = VariantsOnly vfu \<and>
   final_payload_after_failover (Some (pid, [])) vfu = VariantsOnly vfu \<and>
   (final_payload_after_failover r vfu = ProviderSwitch pid' pl' \<longrightarrow>
      r = Some (pid', pl') \<and> pid' \<noteq> 0 \<and> pl' \<noteq> []) \<and>
   (get_blueprint_variants c (blueprint_id prd) (print_provider_id prd) = Some live \<and>
    (\<exists>v\<in>set (variants prd). sv_is_enabled v \<and> sv_id v \<notin> cv_id ` set live) \<and>
    attempt_provider_failover c prd (variants prd) = (Some (0, pl), calls) \<longrightarrow>
      sync_product c prd =
        GetBlueprintVariants (blueprint_id prd) (print_provider_id prd) #
        calls @
        [UpdateProduct (product_id prd)
           (VariantsOnly (fst (stock_loop (cv_id ` set live) (variants prd) ([], False, False)))),
         Sleep])"
proof (intro conjI impI)
  show "final_payload_after_failover (Some (0, pl)) vfu = VariantsOnly vfu"
    by (simp add: final_payload_after_failover_def)
  show "final_payload_after_failover (Some (pid, [])) vfu = VariantsOnly vfu"
    by (simp add: final_payload_after_failover_def)
  assume "final_payload_after_failover r vfu = ProviderSwitch pid' pl'"
  then have "r = Some (pid', pl') \<and> pid' \<noteq> 0 \<and> pl' \<noteq> []"
    by (auto simp: final_payload_after_failover_def split: option.splits if_splits)
  then show "r = Some (pid', pl')" "pid' \<noteq> 0" "pl' \<noteq> []" by simp_all
next
  assume a: "get_blueprint_variants c (blueprint_id prd) (print_provider_id prd) = Some live \<and>
    (\<exists>v\<in>set (variants prd). sv_is_enabled v \<and> sv_id v \<notin> cv_id ` set live) \<and>
    attempt_provider_failover c prd (variants prd) = (Some (0, pl), calls)"
  then have ch:
    "\<exists>v\<in>set (variants prd). sv_is_enabled v \<noteq> (sv_id v \<in> cv_id ` set live)"
    by blast
  have fp: "final_payload_after_failover (Some (0, pl)) x = VariantsOnly x" for x
    by (simp add: final_payload_after_failover_def)
  from a have live: "get_blueprint_variants c (blueprint_id prd) (print_provider_id prd) = Some live"
    and oos: "\<exists>v\<in>set (variants prd). sv_is_enabled v \<and> sv_id v \<notin> cv_id ` set live"
    and att: "attempt_provider_failover c prd (variants prd) = (Some (0, pl), calls)"
    by simp_all
  show "sync_product c prd =
        GetBlueprintVariants (blueprint_id prd) (print_provider_id prd) #
        calls @
        [UpdateProduct (product_id prd)
           (VariantsOnly (fst (stock_loop (cv_id ` set live) (variants prd) ([], False, False)))),
         Sleep]"
    unfolding sync_product_eq [OF live] using ch oos
    by (simp only: att fst_conv snd_conv fp if_True if_False simp_thms)
qed

theorem switch_needs_truthy_result_witness:
  "final_payload_after_failover
     (Some (7, [\<lparr>pv_id = 71, pv_price = 1999, pv_is_enabled = True\<rparr>]))
     [\<lparr>pv_id = 1, pv_price = 1999, pv_is_enabled = False\<rparr>] =
     ProviderSwitch 7 [\<lparr>pv_id = 71, pv_price = 1999, pv_is_enabled = True\<rparr>] \<and>
   get_blueprint_variants shop_client (blueprint_id mug_product) (print_provider_id mug_product) =
     Some [] \<and>
   variant_S \<in> set (variants mug_product) \<and>
   sv_is_enabled variant_S \<and> sv_id variant_S \<notin> cv_id ` set [] \<and>
   attempt_provider_failover shop_client mug_product (variants mug_product) =
     (Some (0, [\<lparr>pv_id = 99, pv_price = 1999, pv_is_enabled = True\<rparr>]),
      [GetBlueprintDetails 9, GetBlueprintVariants 9 0]) \<and>
   sync_product shop_client mug_product =
     [GetBlueprintVariants 9 5, GetBlueprintDetails 9, GetBlueprintVariants 9 0,
      UpdateProduct 11 (VariantsOnly [\<lparr>pv_id = 1, pv_price = 1999, pv_is_enabled = False\<rparr>]),
      Sleep]"
  using switch_needs_truthy_result
          [where pl = "[\<lparr>pv_id = 99, pv_price = 1999, pv_is_enabled = True\<rparr>]"
             and r = "Some (7, [\<lparr>pv_id = 71, pv_price = 1999, pv_is_enabled = True\<rparr>])"
             and vfu = "[\<lparr>pv_id = 1, pv_price = 1999, pv_is_enabled = False\<rparr>]"
             and pid' = 7 and pl' = "[\<lparr>pv_id = 71, pv_price = 1999, pv_is_enabled = True\<rparr>]"
             and c = shop_client and prd = mug_product and live = "[]"
             and calls = "[GetBlueprintDetails 9, GetBlueprintVariants 9 0]"]
  by (simp add: fixture_defs run_defs)

section \<open>The failover matcher: empty option mappings\<close>

lemma options_key_Nil: "(options_key opts = []) = (opts = [])"
proof -
  have "length (options_key opts) = length opts" by (simp add: options_key_def)
  then show ?thesis by (metis length_0_conv)
qed

text \<open>
  C9, as stated, fails: the matcher has no test for an empty option mapping, and the empty
  key is a key like any other. The poster's only variant has an empty option mapping, the
  catalog of provider 7 holds a variant with an empty option mapping, and the matcher
  returns provider 7 with the remapped variant.
\<close>

theorem empty_options_counterexample:
  "sv_options variant_plain = [] \<and>
   variant_plain \<in> set (variants poster_product) \<and>
   get_blueprint_variants shop_client (blueprint_id poster_product) 7 =
     Some [\<lparr>cv_id = 90, cv_options = []\<rparr>] \<and>
   new_variants_map [\<lparr>cv_id = 90, cv_options = []\<rparr>] (options_key (sv_options variant_plain)) =
     Some \<lparr>cv_id = 90, cv_options = []\<rparr> \<and>
   remap_variants (new_variants_map [\<lparr>cv_id = 90, cv_options = []\<rparr>]) (variants poster_product) [] =
     (True, [\<lparr>pv_id = 90, pv_price = 999, pv_is_enabled = True\<rparr>]) \<and>
   attempt_provider_failover shop_client poster_product (variants poster_product) =
     (Some (7, [\<lparr>pv_id = 90, pv_price = 999, pv_is_enabled = True\<rparr>]),
      [GetBlueprintDetails 14, GetBlueprintVariants 14 8, GetBlueprintVariants 14 7])"
  by (simp add: fixture_defs run_defs)

text \<open>
  C9, amended. A store variant whose option mapping is empty matches in a candidate's
  catalog exactly when that catalog holds a variant whose option mapping is empty too, and
  the variant it is matched with is such a variant. So for every candidate provider whose
  catalog holds no variant with an empty option mapping, a store variant list containing a
  variant with an empty option mapping is not fully matched: the candidate is rejected after
  its catalog fetch, and the result of the search is that of the search over the remaining
  candidates.
\<close>

theorem empty_options_match_only_empty_options:
  assumes "sv \<in> set vs" and "sv_options sv = []"
    and "provider_id p \<noteq> cur"
    and "get_blueprint_variants c bid (provider_id p) = Some cvs"
  shows "(new_variants_map cvs (options_key (sv_options sv)) = None) =
           (\<forall>cv\<in>set cvs. cv_options cv \<noteq> []) \<and>
         (\<forall>mv. new_variants_map cvs (options_key (sv_options sv)) = Some mv \<longrightarrow>
                 mv \<in> set cvs \<and> cv_options mv = []) \<and>
         ((\<forall>cv\<in>set cvs. cv_options cv \<noteq> []) \<longrightarrow>
            fst (remap_variants (new_variants_map cvs) vs []) = False \<and>
            provider_loop c bid cur vs (p # ps) =
              emit (GetBlueprintVariants bid (provider_id p)) (provider_loop c bid cur vs ps))"
proof (intro conjI impI allI)
  have k: "options_key (sv_options sv) = []"
    using assms(2) by (simp add: options_key_Nil)
  show m: "(new_variants_map cvs (options_key (sv_options sv)) = None) =
           (\<forall>cv\<in>set cvs. cv_options cv \<noteq> [])"
    by (simp add: new_variants_map_None k options_key_Nil)
  {
    fix mv
    assume "new_variants_map cvs (options_key (sv_options sv)) = Some mv"
    from new_variants_map_Some [OF this] k
    show "mv \<in> set cvs" and "cv_options mv = []"
      by (simp_all add: options_key_Nil)
  }
  assume "\<forall>cv\<in>set cvs. cv_options cv \<noteq> []"
  with m have "new_variants_map cvs (options_key (sv_options sv)) = None" by simp
  with assms(1) have un:
    "\<exists>sv\<in>set vs. new_variants_map cvs (options_key (sv_options sv)) = None"
    by blast
  from remap_variants_fail [OF un]
  show "fst (remap_variants (new_variants_map cvs) vs []) = False" .
  from provider_loop_reject [OF assms(4) un, of cur ps] assms(3)
  show "provider_loop c bid cur vs (p # ps) =
          emit (GetBlueprintVariants bid (provider_id p)) (provider_loop c bid cur vs ps)"
    by simp
qed

theorem empty_options_match_only_empty_options_witness:
  "variant_plain \<in> set (variants poster_product) \<and>
   sv_options variant_plain = [] \<and>
   provider_id \<lparr>provider_id = 8, provider_title = ''Second''\<rparr> \<noteq> 5 \<and>
   get_blueprint_variants shop_client 14 (provider_id \<lparr>provider_id = 8, provider_title = ''Second''\<rparr>) =
     Some [\<lparr>cv_id = 81, cv_options = [(''size'', ''S'')]\<rparr>] \<and>
   cv_options \<lparr>cv_id = 81, cv_options = [(''size'', ''S'')]\<rparr> \<noteq> [] \<and>
   new_variants_map [\<lparr>cv_id = 81, cv_options = [(''size'', ''S'')]\<rparr>]
     (options_key (sv_options variant_plain)) = None \<and>
   fst (remap_variants (new_variants_map [\<lparr>cv_id = 81, cv_options = [(''size'', ''S'')]\<rparr>])
          (variants poster_product) []) = False \<and>
   provider_loop shop_client 14 5 (variants poster_product)
     [\<lparr>provider_id = 8, provider_title = ''Second''\<rparr>,
      \<lparr>provider_id = 7, provider_title = ''First''\<rparr>] =
   emit (GetBlueprintVariants 14 8)
     (provider_loop shop_client 14 5 (variants poster_product)
        [\<lparr>provider_id = 7, provider_title = ''First''\<rparr>]) \<and>
   provider_loop shop_client 14 5 (variants poster_product)
     [\<lparr>provider_id = 8, provider_title = ''Second''\<rparr>,
      \<lparr>provider_id = 7, provider_title = ''First''\<rparr>] =
     (Some (7, [\<lparr>pv_id = 90, pv_price = 999, pv_is_enabled = True\<rparr>]),
      [GetBlueprintVariants 14 8, GetBlueprintVariants 14 7])"
  using empty_options_match_only_empty_options
          [where sv = variant_plain and vs = "variants poster_product" and c = shop_client
             and bid = 14 and p = "\<lparr>provider_id = 8, provider_title = ''Second''\<rparr>"
             and cvs = "[\<lparr>cv_id = 81, cv_options = [(''size'', ''S'')]\<rparr>]" and cur = 5
             and ps = "[\<lparr>provider_id = 7, provider_title = ''First''\<rparr>]"]
  by (simp add: fixture_defs run_defs)

end
